theory Spec2Isabelle
  imports Complex_Main
begin

section \<open>Conventions of the embedding\<close>

text \<open>
  The repository is a React front end. Each component is embedded as a record of the
  state it keeps (its \<open>useState\<close> and \<open>useRef\<close> cells) and each handler as a function
  from the old state to the new one. What a handler reads from outside the component
  (the clock, what a backend call returns or whether it throws) is a parameter.

  \<^item> A JavaScript number is a \<^typ>\<open>real\<close>: the arithmetic is exact, there is no NaN and
    no rounding.
  \<^item> A property that may be \<open>undefined\<close> is an \<^typ>\<open>'a option\<close>.
  \<^item> A string is a \<^typ>\<open>string\<close>; a character is a code unit below 256.
  \<^item> A call that may throw returns an \<open>outcome\<close>.
\<close>

datatype 'a outcome = Throws | Returns 'a

text \<open>\<open>xs.slice(-n)\<close> for a positive \<open>n\<close>: the last \<open>n\<close> elements, all of them when
  there are fewer.\<close>

definition slice_last :: "nat \<Rightarrow> 'a list \<Rightarrow> 'a list" where
  "slice_last n xs = drop (length xs - n) xs"

text \<open>\<open>x ?? 0\<close> and the destructuring default \<open>{ x = 0 }\<close>.\<close>

definition or0 :: "real option \<Rightarrow> real" where
  "or0 x = (case x of None \<Rightarrow> 0 | Some v \<Rightarrow> v)"

text \<open>The white space that \<open>String.prototype.trim\<close> strips, among the code units below
  256: TAB, LF, VT, FF, CR, SPACE and NBSP.\<close>

definition is_space :: "char \<Rightarrow> bool" where
  "is_space c = (c = CHR 0x09 \<or> c = CHR 0x0A \<or> c = CHR 0x0B \<or> c = CHR 0x0C \<or>
                 c = CHR 0x0D \<or> c = CHR 0x20 \<or> c = CHR 0xA0)"

definition trim :: "string \<Rightarrow> string" where
  "trim s = rev (dropWhile is_space (rev (dropWhile is_space s)))"

section \<open>The dashboard page (DashboardPro.jsx)\<close>

subsection \<open>Affect mapper\<close>

text \<open>\<open>const clamp = (v, a = -10, b = 10) => Math.max(a, Math.min(b, v))\<close>; every call in
  the page passes both bounds.\<close>

definition clamp :: "real \<Rightarrow> real \<Rightarrow> real \<Rightarrow> real" where
  "clamp v a b = max a (min b v)"

text \<open>\<open>mapAffectToValue({ calm = 0, focus = 0 })\<close>: the argument object's two properties,
  each possibly missing.\<close>

definition mapAffectToValue :: "real option \<Rightarrow> real option \<Rightarrow> real" where
  "mapAffectToValue calm focus =
     (let raw = or0 focus * 1.25 + or0 calm * 0.9 in clamp raw (-3) 3)"

subsection \<open>State of the page\<close>

record sample =
  ts :: int
  sample_value :: real
  time :: string
  source :: "string option"

record emotion =
  primary :: string
  scores_calm :: real
  scores_focus :: real

text \<open>The four texts \<open>getTip\<close> returns, and the initial one.\<close>

datatype tip = Waiting | CalmTip | TenseTip | FocusedTip | StableTip

text \<open>\<open>storage\<close> is the value under the key \<open>mindcare_sleep_timing\<close> of the browser's local
  storage; the other fields are the cells of the component.\<close>

record dashboard =
  emotion_state :: emotion
  running :: bool
  paused :: bool
  tip_state :: tip
  rawBuffer :: "sample list"
  signals :: "sample list"
  latestVal :: real
  sleepTiming :: string
  storage :: "string option"

definition getTip :: "string \<Rightarrow> tip" where
  "getTip p =
     (if p = [] then Waiting
      else if p = ''calm'' then CalmTip
      else if p = ''tense'' then TenseTip
      else if p = ''focused'' then FocusedTip
      else StableTip)"

subsection \<open>Simulated sensor feed\<close>

text \<open>What \<open>inferenceService.inferEmotion\<close> returns: \<open>primary\<close>, \<open>scores?.calm\<close> and
  \<open>scores?.focus\<close>.\<close>

record inferred =
  em_primary :: "string option"
  em_calm :: "real option"
  em_focus :: "real option"

text \<open>The \<open>neuro\<close> property of a sensor reading, with its \<open>alpha\<close> and \<open>beta\<close>.\<close>

record neuro =
  alpha :: "real option"
  beta :: "real option"

definition neuro_val :: "neuro option \<Rightarrow> real" where
  "neuro_val nr =
     (case nr of
        None \<Rightarrow> 0
      | Some n \<Rightarrow>
          (case (alpha n, beta n) of
             (Some a, Some b) \<Rightarrow> a - b
           | _ \<Rightarrow> 0))"

text \<open>The handler of the \<open>signals\<close> event. \<open>infer\<close> is the outcome of the inference call
  (\<open>Returns None\<close> is a falsy result), \<open>push\<close> the outcome of \<open>simulatePush\<close>; both
  calls stand in a \<open>try\<close> with an empty \<open>catch\<close>, the \<open>rawBuffer.current.push\<close> stands
  between the two, outside of them.\<close>

definition on_signals ::
  "int \<Rightarrow> string \<Rightarrow> inferred option outcome \<Rightarrow> unit outcome \<Rightarrow> neuro option \<Rightarrow>
   dashboard \<Rightarrow> dashboard" where
  "on_signals now clock infer push nr st =
     (if \<not> running st \<or> paused st then st
      else
        let st1 =
              (case infer of
                 Throws \<Rightarrow> st
               | Returns None \<Rightarrow> st
               | Returns (Some emRaw) \<Rightarrow>
                   let p = (case em_primary emRaw of
                              None \<Rightarrow> ''neutral''
                            | Some q \<Rightarrow> if q = [] then ''neutral'' else q)
                   in st\<lparr>emotion_state :=
                           \<lparr>primary = p, scores_calm = or0 (em_calm emRaw),
                            scores_focus = or0 (em_focus emRaw)\<rparr>,
                         tip_state := getTip p\<rparr>);
            st2 = st1\<lparr>rawBuffer := rawBuffer st1 @
                    [\<lparr>ts = now, sample_value = neuro_val nr, time = clock, source = None\<rparr>]\<rparr>
        in (case push of Throws \<Rightarrow> st2 | Returns u \<Rightarrow> st2))"

text \<open>A sequence of sensor readings, each with the clock values and the outcomes of the
  two calls made while it is handled.\<close>

definition on_signals_all ::
  "(int \<times> string \<times> inferred option outcome \<times> unit outcome \<times> neuro option) list \<Rightarrow>
   dashboard \<Rightarrow> dashboard" where
  "on_signals_all rs st =
     foldl (\<lambda>s (now, clock, infer, push, nr). on_signals now clock infer push nr s) st rs"

subsection \<open>Camera feed\<close>

text \<open>The signal object the face tracker passes to \<open>onSignal\<close>.\<close>

record face_signal =
  timestamp :: int
  calm :: "real option"
  anxious :: "real option"
  focus :: "real option"
  rawExpressions :: "(string \<times> real) list"

text \<open>The threshold rules of \<open>handleFaceSignal\<close>, in the order of its \<open>if\<close> chain.\<close>

definition primary_label :: "real \<Rightarrow> real \<Rightarrow> string" where
  "primary_label c f =
     (if c > 0.6 \<and> c > f then ''calm''
      else if f > 0.55 \<and> f > c then ''focused''
      else if c < 0.35 \<and> f < 0.4 then ''tense''
      else ''neutral'')"

definition handleFaceSignal ::
  "int \<Rightarrow> string \<Rightarrow> unit outcome \<Rightarrow> face_signal option \<Rightarrow> dashboard \<Rightarrow> dashboard" where
  "handleFaceSignal now clock push sg st =
     (case sg of
        None \<Rightarrow> st
      | Some s \<Rightarrow>
          let c = or0 (calm s);
              f = or0 (focus s);
              p = primary_label c f;
              st1 = st\<lparr>emotion_state := \<lparr>primary = p, scores_calm = c, scores_focus = f\<rparr>,
                       tip_state := getTip p\<rparr>;
              mapped = mapAffectToValue (Some c) (Some f);
              st2 = st1\<lparr>rawBuffer := rawBuffer st1 @
                      [\<lparr>ts = now, sample_value = mapped, time = clock,
                        source = Some ''camera''\<rparr>]\<rparr>
          in (case push of Throws \<Rightarrow> st2 | Returns u \<Rightarrow> st2))"

subsection \<open>Draining the staging queue\<close>

text \<open>One run of \<open>tick\<close>: \<open>splice(0, 4)\<close> takes the first four entries out of the
  queue, the window becomes \<open>[...prev, ...take].slice(-160)\<close>.\<close>

definition tick :: "dashboard \<Rightarrow> dashboard" where
  "tick st =
     (if rawBuffer st \<noteq> [] then
        let taken = take 4 (rawBuffer st);
            merged = slice_last 160 (signals st @ taken);
            newest = (if merged \<noteq> [] then sample_value (last merged) else 0)
        in st\<lparr>rawBuffer := drop 4 (rawBuffer st), signals := merged, latestVal := newest\<rparr>
      else st)"

text \<open>What happens to the page between two renders: a sample is pushed by one of the
  producers, or the redraw callback runs.\<close>

datatype event = Push sample | Tick

fun step :: "dashboard \<Rightarrow> event \<Rightarrow> dashboard" where
  "step st (Push x) = st\<lparr>rawBuffer := rawBuffer st @ [x]\<rparr>"
| "step st Tick = tick st"

definition run :: "dashboard \<Rightarrow> event list \<Rightarrow> dashboard" where
  "run st evs = foldl step st evs"

text \<open>The samples the events push, in order.\<close>

fun pushed :: "event list \<Rightarrow> sample list" where
  "pushed [] = []"
| "pushed (Push x # evs) = x # pushed evs"
| "pushed (Tick # evs) = pushed evs"

subsection \<open>Sleep timing\<close>

text \<open>The initializer of the \<open>sleepTiming\<close> cell: \<open>localStorage.getItem(SLEEP_KEY) || ""\<close>,
  and the empty string when the read throws (\<open>readable\<close> is false).\<close>

definition load_sleepTiming :: "bool \<Rightarrow> string option \<Rightarrow> string" where
  "load_sleepTiming readable stored =
     (if readable then (case stored of None \<Rightarrow> [] | Some v \<Rightarrow> v) else [])"

text \<open>\<open>saveSleepTiming(val)\<close>. \<open>writable\<close> is false when the storage call throws: the
  \<open>catch\<close> is empty and the \<open>setSleepTiming\<close> after the call is skipped.\<close>

definition saveSleepTiming :: "bool \<Rightarrow> string \<Rightarrow> dashboard \<Rightarrow> dashboard" where
  "saveSleepTiming writable v st =
     (if v = [] then
        (if writable then st\<lparr>storage := None, sleepTiming := []\<rparr> else st)
      else
        (if writable then st\<lparr>storage := Some v, sleepTiming := v\<rparr> else st))"

text \<open>\<open>onSetSleepTiming\<close>: \<open>answer\<close> is what \<open>window.prompt\<close> returned, \<open>None\<close> when
  the user cancelled.\<close>

definition onSetSleepTiming :: "bool \<Rightarrow> string option \<Rightarrow> dashboard \<Rightarrow> dashboard" where
  "onSetSleepTiming writable answer st =
     (case answer of
        None \<Rightarrow> st
      | Some inp \<Rightarrow>
          let trimmed = trim inp
          in if trimmed = [] then st else saveSleepTiming writable trimmed st)"

text \<open>\<open>onClearSleepTiming\<close>: \<open>confirmed\<close> is the answer of \<open>window.confirm\<close>.\<close>

definition onClearSleepTiming :: "bool \<Rightarrow> bool \<Rightarrow> dashboard \<Rightarrow> dashboard" where
  "onClearSleepTiming writable confirmed st =
     (if sleepTiming st = [] then st
      else if \<not> confirmed then st
      else saveSleepTiming writable [] st)"

text \<open>The state of a freshly mounted page.\<close>

definition init_dashboard :: "bool \<Rightarrow> string option \<Rightarrow> dashboard" where
  "init_dashboard readable stored =
     \<lparr>emotion_state = \<lparr>primary = ''neutral'', scores_calm = 0, scores_focus = 0\<rparr>,
      running = True, paused = False, tip_state = Waiting,
      rawBuffer = [], signals = [], latestVal = 0,
      sleepTiming = load_sleepTiming readable stored, storage = stored\<rparr>"

section \<open>The face tracker (FaceEmotionTracker.jsx)\<close>

text \<open>An expression object is the list of its properties in the order of
  \<open>Object.keys\<close>; \<open>map_of\<close> reads a property.\<close>

type_synonym expressions = "(string \<times> real) list"

text \<open>What a backend call gives back to its caller: the helper threw (with the message
  of the error), it returned \<open>null\<close>, or it returned the parsed JSON.\<close>

datatype 'a fetched = Failed string | Null | Json 'a

text \<open>The fields of the \<open>/emotion\<close> response that \<open>sampleAndSend\<close> reads: the truth value
  of \<open>success\<close>, and \<open>emotions\<close>.\<close>

record emotion_resp =
  er_success :: bool
  er_emotions :: "expressions option"

text \<open>The cells \<open>sampleAndSend\<close> reads or writes (the \<open>raw\<close> cell, which nothing reads,
  is left out), whether the video element is mounted, and the calls of \<open>onSignal\<close> so
  far.\<close>

record tracker =
  smoothed :: expressions
  lastUpdated :: "int option"
  error_text :: string
  inFlight :: bool
  video :: bool
  emitted :: "face_signal list"

text \<open>\<open>new Set([...Object.keys(prev), ...Object.keys(next)])\<close>: a set keeps the first
  occurrence of a key.\<close>

definition key_union :: "expressions \<Rightarrow> expressions \<Rightarrow> string list" where
  "key_union prev next = rev (remdups (rev (map fst prev @ map fst next)))"

definition ema :: "expressions \<Rightarrow> expressions \<Rightarrow> real \<Rightarrow> expressions" where
  "ema prev next a =
     map (\<lambda>k. (k, a * or0 (map_of prev k) + (1 - a) * or0 (map_of next k)))
       (key_union prev next)"

text \<open>\<open>mapToSignalsAndEmit\<close>: the signal it passes to \<open>onSignal\<close>.\<close>

definition mapToSignals :: "int \<Rightarrow> expressions \<Rightarrow> face_signal" where
  "mapToSignals now emotions =
     (let happy = or0 (map_of emotions ''happiness'');
          neutral = or0 (map_of emotions ''neutral'');
          angry = or0 (map_of emotions ''anger'');
          fear = or0 (map_of emotions ''fear'');
          surprised = or0 (map_of emotions ''surprised'');
          calmRaw = min 1 (happy * 0.7 + neutral * 0.6 - fear * 0.3);
          anxiousRaw = min 1 (fear * 0.7 + surprised * 0.5 + angry * 0.4);
          focusRaw = min 1 (neutral * 0.6 + (1 - surprised) * 0.3 + happy * 0.1)
      in \<lparr>timestamp = now,
          calm = Some (max 0 (min 1 calmRaw)),
          anxious = Some (max 0 (min 1 anxiousRaw)),
          focus = Some (max 0 (min 1 focusRaw)),
          rawExpressions = emotions\<rparr>)"

text \<open>The object \<open>next\<close> that \<open>sampleAndSend\<close> builds from \<open>data.emotions\<close>.\<close>

definition next_vector :: "expressions \<Rightarrow> expressions" where
  "next_vector e =
     [(''happiness'', or0 (map_of e ''happiness'')),
      (''neutral'', or0 (map_of e ''neutral'')),
      (''sadness'', or0 (map_of e ''sadness'')),
      (''anger'', or0 (map_of e ''anger'')),
      (''fear'', or0 (map_of e ''fear''))]"

text \<open>One run of \<open>sampleAndSend\<close>, from the guard to the end of the state update;
  \<open>smoothing\<close> is the property of the component, \<open>api\<close> what \<open>callEmotionApi\<close> gave (a
  failure of the frame capture is a \<open>Failed\<close> too: the same \<open>catch\<close> handles it). The
  flag \<open>inFlight\<close> is set during the call only.\<close>

definition sampleAndSend ::
  "real \<Rightarrow> int \<Rightarrow> emotion_resp fetched \<Rightarrow> tracker \<Rightarrow> tracker" where
  "sampleAndSend smoothing now api st =
     (if inFlight st then st
      else if \<not> video st then st
      else
        (case api of
           Failed msg \<Rightarrow> st\<lparr>inFlight := False, error_text := msg\<rparr>
         | Null \<Rightarrow> st\<lparr>inFlight := False\<rparr>
         | Json d \<Rightarrow>
             (if er_success d then
                (case er_emotions d of
                   None \<Rightarrow> st\<lparr>inFlight := False\<rparr>
                 | Some e \<Rightarrow>
                     let next = next_vector e;
                         mixed = ema (smoothed st) next smoothing
                     in st\<lparr>inFlight := False, lastUpdated := Some now,
                           emitted := emitted st @ [mapToSignals now next],
                           smoothed := mixed\<rparr>)
              else st\<lparr>inFlight := False\<rparr>)))"

text \<open>A sequence of samples, each with the time it is handled at and the answer of the
  backend.\<close>

definition sample_all :: "real \<Rightarrow> (int \<times> emotion_resp fetched) list \<Rightarrow> tracker \<Rightarrow> tracker" where
  "sample_all smoothing rs st = foldl (\<lambda>s (now, api). sampleAndSend smoothing now api s) st rs"

text \<open>The bars: \<open>StatBar\<close> shows \<open>Math.round((value ?? 0) * 100)\<close> for the five
  components of the smoothed vector.\<close>

definition pct :: "real option \<Rightarrow> int" where
  "pct v = \<lfloor>or0 v * 100 + 1 / 2\<rfloor>"

definition bars :: "tracker \<Rightarrow> int list" where
  "bars st =
     map (\<lambda>k. pct (map_of (smoothed st) k))
       [''happiness'', ''neutral'', ''sadness'', ''anger'', ''fear'']"

definition init_tracker :: tracker where
  "init_tracker =
     \<lparr>smoothed = [(''happiness'', 0), (''neutral'', 0), (''sadness'', 0), (''anger'', 0),
                   (''fear'', 0)],
      lastUpdated = None, error_text = [], inFlight = False, video = True, emitted = []\<rparr>"

text \<open>Every component of an expression object lies in the unit interval.\<close>

definition unit_valued :: "expressions \<Rightarrow> bool" where
  "unit_valued e = list_all (\<lambda>(k, v). 0 \<le> v \<and> v \<le> 1) e"

text \<open>Every answer of a sequence that carries an \<open>emotions\<close> object carries a
  unit-valued one.\<close>

definition unit_answers :: "(int \<times> emotion_resp fetched) list \<Rightarrow> bool" where
  "unit_answers rs =
     list_all (\<lambda>(now, api).
        case api of
          Json d \<Rightarrow> (case er_emotions d of None \<Rightarrow> True | Some e \<Rightarrow> unit_valued e)
        | _ \<Rightarrow> True) rs"

section \<open>The chat bot (ChatBot.jsx)\<close>

record message =
  role :: string
  msg_text :: string

type_synonym blob = "nat list"

text \<open>The two requests the component posts to the voice endpoint: the recorded audio
  with the history, and a text with the history.\<close>

datatype request = AudioPost blob "message list" | TextPost string "message list"

text \<open>The fields of a voice response the component reads; \<open>vr_success\<close> is the truth
  value of \<open>success\<close>.\<close>

record voice_resp =
  vr_success :: bool
  vr_error :: "string option"
  vr_transcript :: "string option"
  vr_replyText :: "string option"
  vr_audioBase64 :: "string option"

text \<open>The cells of the component, the requests it has issued and the audio payloads it
  has handed to the player.\<close>

record chat =
  messages :: "message list"
  recording :: bool
  loading :: bool
  permissionError :: string
  voiceEnabled :: bool
  input :: string
  requests :: "request list"
  played :: "string list"

text \<open>\<open>x || d\<close> on a string that may be missing.\<close>

definition or_else :: "string option \<Rightarrow> string \<Rightarrow> string" where
  "or_else x d = (case x of None \<Rightarrow> d | Some s \<Rightarrow> if s = [] then d else s)"

text \<open>\<open>setMessages((m) => [...m, { role, text }])\<close>.\<close>

definition say :: "string \<Rightarrow> string \<Rightarrow> chat \<Rightarrow> chat" where
  "say r t st = st\<lparr>messages := messages st @ [\<lparr>role = r, msg_text = t\<rparr>]\<rparr>"

definition post :: "request \<Rightarrow> chat \<Rightarrow> chat" where
  "post rq st = st\<lparr>requests := requests st @ [rq]\<rparr>"

text \<open>The playback block: it runs when auto-play is on and the payload is truthy; what
  fails inside is caught there.\<close>

definition play :: "bool \<Rightarrow> string option \<Rightarrow> chat \<Rightarrow> chat" where
  "play enabled audio st =
     (case audio of
        None \<Rightarrow> st
      | Some b \<Rightarrow> if enabled \<and> b \<noteq> [] then st\<lparr>played := played st @ [b]\<rparr> else st)"

text \<open>\<open>handleAudioFlow(blob)\<close>. \<open>server\<close> is what \<open>safeFetchJson\<close> gives for a request;
  \<open>seen\<close> and \<open>autoplay\<close> are the values of \<open>messages\<close> and \<open>voiceEnabled\<close> in the
  closure of the render the function belongs to.\<close>

definition handleAudioFlow ::
  "(request \<Rightarrow> voice_resp fetched) \<Rightarrow> message list \<Rightarrow> bool \<Rightarrow> blob \<Rightarrow> chat \<Rightarrow> chat" where
  "handleAudioFlow server seen autoplay b st =
     (let st1 = st\<lparr>loading := True\<rparr>;
          rq1 = AudioPost b (slice_last 10 seen);
          st2 = post rq1 st1;
          st3 =
            (case server rq1 of
               Failed e \<Rightarrow> say ''assistant'' ''Something went wrong processing your audio.'' st2
             | Null \<Rightarrow> say ''assistant'' ''Could not transcribe audio.'' st2
             | Json transResp \<Rightarrow>
                 if \<not> vr_success transResp then
                   say ''assistant''
                     (or_else (vr_error transResp) ''Could not transcribe audio.'') st2
                 else
                   let transcript = or_else (vr_transcript transResp) []
                   in if transcript = [] then
                        say ''assistant'' ''No speech recognized.'' st2
                      else
                        let st4 = say ''user'' transcript st2;
                            rq2 = TextPost transcript (slice_last 10 seen);
                            st5 = post rq2 st4
                        in (case server rq2 of
                              Failed e \<Rightarrow>
                                say ''assistant''
                                  ''Something went wrong processing your audio.'' st5
                            | Null \<Rightarrow> say ''assistant'' ''Assistant failed to respond.'' st5
                            | Json textResp \<Rightarrow>
                                if \<not> vr_success textResp then
                                  say ''assistant''
                                    (or_else (vr_error textResp)
                                       ''Assistant failed to respond.'') st5
                                else
                                  play autoplay (vr_audioBase64 textResp)
                                    (say ''assistant''
                                       (case vr_replyText textResp of
                                          None \<Rightarrow> ''(no reply text)''
                                        | Some t \<Rightarrow> t) st5)))
      in st3\<lparr>loading := False\<rparr>)"

text \<open>\<open>sendText(txt)\<close>; \<open>None\<close> is a \<open>null\<close> or \<open>undefined\<close> argument.\<close>

definition sendText ::
  "(request \<Rightarrow> voice_resp fetched) \<Rightarrow> message list \<Rightarrow> bool \<Rightarrow> string option \<Rightarrow> chat \<Rightarrow> chat" where
  "sendText server seen autoplay txt st =
     (case txt of
        None \<Rightarrow> st
      | Some t \<Rightarrow>
          if t = [] \<or> trim t = [] then st
          else
            let txt' = trim t;
                st1 = (say ''user'' txt' st)\<lparr>input := [], loading := True\<rparr>;
                rq = TextPost txt' (slice_last 10 seen);
                st2 = post rq st1;
                st3 =
                  (case server rq of
                     Failed e \<Rightarrow> say ''assistant'' ''Failed to reach assistant.'' st2
                   | Null \<Rightarrow> say ''assistant'' ''Assistant error.'' st2
                   | Json d \<Rightarrow>
                       if \<not> vr_success d then
                         say ''assistant'' (or_else (vr_error d) ''Assistant error.'') st2
                       else
                         play autoplay (vr_audioBase64 d)
                           (say ''assistant''
                              (case vr_replyText d of
                                 None \<Rightarrow> ''(no reply text)''
                               | Some r \<Rightarrow> r) st2))
            in st3\<lparr>loading := False\<rparr>)"

section \<open>Properties\<close>

subsection \<open>Helper facts\<close>

lemma or0_simps: "or0 None = 0" "or0 (Some v) = v"
  by (simp_all add: or0_def)

subsection \<open>Affect mapper\<close>

lemma handleFaceSignal_primary:
  "primary (emotion_state (handleFaceSignal now clock push (Some s) st)) =
     primary_label (or0 (calm s)) (or0 (focus s))"
  by (cases push) (simp_all add: handleFaceSignal_def Let_def)

text \<open>
  C1. For calm and focus in the unit interval, the label \<open>handleFaceSignal\<close> stores is
  decided by its threshold rules read top to bottom, the first rule that matches
  winning: calm above 0.6 and above focus gives "calm"; otherwise focus above 0.55 and
  above calm gives "focused"; otherwise calm below 0.35 and focus below 0.4 gives
  "tense"; otherwise "neutral". The four sample points of the specification get the
  labels it lists, and the label is never "stable".
\<close>

theorem classifier_rule_order:
  assumes "0 \<le> c" and "c \<le> 1" and "0 \<le> f" and "f \<le> 1"
    and "or0 (calm s) = c" and "or0 (focus s) = f"
  shows "(c > 0.6 \<and> c > f \<longrightarrow>
            primary (emotion_state (handleFaceSignal now clock push (Some s) st)) = ''calm'') \<and>
         (\<not> (c > 0.6 \<and> c > f) \<and> f > 0.55 \<and> f > c \<longrightarrow>
            primary (emotion_state (handleFaceSignal now clock push (Some s) st)) = ''focused'') \<and>
         (\<not> (c > 0.6 \<and> c > f) \<and> \<not> (f > 0.55 \<and> f > c) \<and> c < 0.35 \<and> f < 0.4 \<longrightarrow>
            primary (emotion_state (handleFaceSignal now clock push (Some s) st)) = ''tense'') \<and>
         (\<not> (c > 0.6 \<and> c > f) \<and> \<not> (f > 0.55 \<and> f > c) \<and> \<not> (c < 0.35 \<and> f < 0.4) \<longrightarrow>
            primary (emotion_state (handleFaceSignal now clock push (Some s) st)) = ''neutral'') \<and>
         primary (emotion_state (handleFaceSignal now clock push (Some s) st)) \<noteq> ''stable'' \<and>
         primary_label 0.8 0.3 = ''calm'' \<and> primary_label 0.3 0.7 = ''focused'' \<and>
         primary_label 0.1 0.1 = ''tense'' \<and> primary_label 0.5 0.5 = ''neutral''"
  using assms by (auto simp add: handleFaceSignal_primary primary_label_def)

theorem classifier_rule_order_witness:
  "primary (emotion_state (handleFaceSignal 7 ''10:00:00'' Throws
      (Some \<lparr>timestamp = 7, calm = Some 0.8, anxious = Some 0, focus = Some 0.3,
             rawExpressions = []\<rparr>) (init_dashboard True None))) = ''calm''"
  using classifier_rule_order [of "0.8" "0.3"
      "\<lparr>timestamp = 7, calm = Some 0.8, anxious = Some 0, focus = Some 0.3, rawExpressions = []\<rparr>"
      7 "''10:00:00''" Throws "init_dashboard True None"]
  by (simp add: or0_simps)

text \<open>
  C2. Whatever calm and focus are, a missing one counting as 0, the trend value is
  \<open>focus * 1.25 + calm * 0.9\<close> clamped to the interval from -3 to 3; calm 10 and focus 10
  give the raw value 21.5 and the trend value 3. The function is total: it has a value
  on every argument.
\<close>

theorem trend_value_clamped:
  "mapAffectToValue c f = max (-3) (min 3 (or0 f * 1.25 + or0 c * 0.9)) \<and>
   - 3 \<le> mapAffectToValue c f \<and> mapAffectToValue c f \<le> 3 \<and>
   mapAffectToValue c f =
     (if or0 f * 1.25 + or0 c * 0.9 < - 3 then - 3
      else if 3 < or0 f * 1.25 + or0 c * 0.9 then 3
      else or0 f * 1.25 + or0 c * 0.9) \<and>
   (10::real) * 1.25 + 10 * 0.9 = 21.5 \<and>
   mapAffectToValue (Some 10) (Some 10) = 3 \<and>
   mapAffectToValue None None = 0 \<and>
   mapAffectToValue (Some 1) None = 0.9 \<and>
   mapAffectToValue None (Some 1) = 1.25"
  by (simp add: mapAffectToValue_def clamp_def or0_simps Let_def max_def min_def)

subsection \<open>Signal buffer\<close>

lemma slice_last_length: "length (slice_last n xs) \<le> n"
  by (simp add: slice_last_def)

lemma slice_last_short: "length xs \<le> n \<Longrightarrow> slice_last n xs = xs"
  by (simp add: slice_last_def)

lemma slice_last_append_slice:
  "slice_last n (slice_last n xs @ ys) = slice_last n (xs @ ys)"
proof (cases "length xs \<le> n")
  case True
  then show ?thesis by (simp add: slice_last_short)
next
  case False
  then have "length xs - n + (n + length ys - n) = length xs + length ys - n"
    by simp
  with False show ?thesis
    by (simp add: slice_last_def add.commute)
qed

lemma pushed_append: "pushed (xs @ ys) = pushed xs @ pushed ys"
  by (induction xs rule: pushed.induct) simp_all

lemma run_snoc: "run st (evs @ [e]) = step (run st evs) e"
  by (simp add: run_def)

lemma tick_rawBuffer: "rawBuffer (tick st) = drop 4 (rawBuffer st)"
  by (simp add: tick_def Let_def)

lemma tick_signals:
  "signals (tick st) =
     (if rawBuffer st = [] then signals st
      else slice_last 160 (signals st @ take 4 (rawBuffer st)))"
  by (simp add: tick_def Let_def)

lemma tick_idle: "rawBuffer st = [] \<Longrightarrow> tick st = st"
  by (simp add: tick_def)

lemma run_window:
  assumes "rawBuffer st = []" and "signals st = []"
  shows "\<exists>n\<le>length (pushed evs).
           rawBuffer (run st evs) = drop n (pushed evs) \<and>
           signals (run st evs) = slice_last 160 (take n (pushed evs))"
proof (induction evs rule: rev_induct)
  case Nil
  show ?case using assms by (simp add: run_def slice_last_def)
next
  case (snoc e evs)
  then obtain n where n: "n \<le> length (pushed evs)"
    and rb: "rawBuffer (run st evs) = drop n (pushed evs)"
    and sg: "signals (run st evs) = slice_last 160 (take n (pushed evs))"
    by blast
  show ?case
  proof (cases e)
    case (Push x)
    have "rawBuffer (run st (evs @ [e])) = drop n (pushed (evs @ [e]))"
      using n rb Push by (simp add: run_snoc pushed_append)
    moreover have "signals (run st (evs @ [e])) = slice_last 160 (take n (pushed (evs @ [e])))"
      using n sg Push by (simp add: run_snoc pushed_append)
    moreover have "n \<le> length (pushed (evs @ [e]))"
      using n by (simp add: pushed_append)
    ultimately show ?thesis by blast
  next
    case Tick
    let ?h = "pushed evs"
    let ?m = "min (n + 4) (length ?h)"
    have h: "pushed (evs @ [e]) = ?h" using Tick by (simp add: pushed_append)
    have "rawBuffer (run st (evs @ [e])) = drop ?m ?h"
      using rb Tick by (simp add: run_snoc tick_rawBuffer min_def add.commute)
    moreover have "signals (run st (evs @ [e])) = slice_last 160 (take ?m ?h)"
    proof (cases "drop n ?h = []")
      case True
      then have "?m = n" using n by simp
      then show ?thesis using True rb sg Tick by (simp add: run_snoc tick_idle)
    next
      case False
      have "take n ?h @ take 4 (drop n ?h) = take (n + 4) ?h"
        by (simp add: take_add)
      then have "slice_last 160 (slice_last 160 (take n ?h) @ take 4 (drop n ?h)) =
                 slice_last 160 (take ?m ?h)"
        by (simp add: slice_last_append_slice min_def)
      then show ?thesis using False rb sg Tick by (simp add: run_snoc tick_signals)
    qed
    moreover have "?m \<le> length (pushed (evs @ [e]))" using h by simp
    ultimately show ?thesis using h by metis
  qed
qed

text \<open>
  C3. A tick removes the first four samples of the staging queue (all of them when there
  are fewer), appends them in their order to the display window and keeps the last 160
  entries of the result; on an empty queue it changes nothing. Hence, starting from an
  empty queue and an empty window, after any sequence of insertions and ticks the window
  has at most 160 entries, and it holds the last 160 of the samples drained so far, in
  the order in which they were inserted, while the queue holds the samples not yet
  drained.
\<close>

theorem drain_window:
  "rawBuffer (tick st) = drop 4 (rawBuffer st) \<and>
   (rawBuffer st \<noteq> [] \<longrightarrow>
      signals (tick st) = slice_last 160 (signals st @ take 4 (rawBuffer st)) \<and>
      length (signals (tick st)) \<le> 160) \<and>
   (rawBuffer st = [] \<longrightarrow> tick st = st) \<and>
   (rawBuffer st = [] \<and> signals st = [] \<longrightarrow>
      length (signals (run st evs)) \<le> 160 \<and>
      (\<exists>n\<le>length (pushed evs).
         rawBuffer (run st evs) = drop n (pushed evs) \<and>
         signals (run st evs) = slice_last 160 (take n (pushed evs))))"
proof -
  have a: "rawBuffer (tick st) = drop 4 (rawBuffer st)"
    by (rule tick_rawBuffer)
  have b: "rawBuffer st \<noteq> [] \<longrightarrow>
      signals (tick st) = slice_last 160 (signals st @ take 4 (rawBuffer st)) \<and>
      length (signals (tick st)) \<le> 160"
    by (simp add: tick_signals slice_last_length)
  have c: "rawBuffer st = [] \<longrightarrow> tick st = st"
    by (simp add: tick_idle)
  have d: "rawBuffer st = [] \<and> signals st = [] \<longrightarrow>
      length (signals (run st evs)) \<le> 160 \<and>
      (\<exists>n\<le>length (pushed evs).
         rawBuffer (run st evs) = drop n (pushed evs) \<and>
         signals (run st evs) = slice_last 160 (take n (pushed evs)))"
  proof
    assume e: "rawBuffer st = [] \<and> signals st = []"
    then obtain n where n: "n \<le> length (pushed evs)"
      "rawBuffer (run st evs) = drop n (pushed evs)"
      "signals (run st evs) = slice_last 160 (take n (pushed evs))"
      using run_window [of st evs] by blast
    then have "length (signals (run st evs)) \<le> 160"
      by (simp add: slice_last_length)
    with n show "length (signals (run st evs)) \<le> 160 \<and>
      (\<exists>n\<le>length (pushed evs).
         rawBuffer (run st evs) = drop n (pushed evs) \<and>
         signals (run st evs) = slice_last 160 (take n (pushed evs)))"
      by blast
  qed
  from a b c d show ?thesis by blast
qed

theorem drain_window_witness:
  "signals (tick ((init_dashboard True None)
      \<lparr>signals := replicate 160 \<lparr>ts = 1, sample_value = 0, time = ''09:00:00'', source = None\<rparr>,
       rawBuffer := [\<lparr>ts = 2, sample_value = 1, time = ''09:00:01'', source = Some ''camera''\<rparr>]\<rparr>)) =
     replicate 159 \<lparr>ts = 1, sample_value = 0, time = ''09:00:00'', source = None\<rparr> @
       [\<lparr>ts = 2, sample_value = 1, time = ''09:00:01'', source = Some ''camera''\<rparr>] \<and>
   length (signals (run (init_dashboard True None)
      [Push \<lparr>ts = 1, sample_value = 0, time = ''09:00:00'', source = None\<rparr>, Tick, Tick])) \<le> 160"
  using drain_window [of "(init_dashboard True None)
      \<lparr>signals := replicate 160 \<lparr>ts = 1, sample_value = 0, time = ''09:00:00'', source = None\<rparr>,
       rawBuffer := [\<lparr>ts = 2, sample_value = 1, time = ''09:00:01'', source = Some ''camera''\<rparr>]\<rparr>" "[]"]
    drain_window [of "init_dashboard True None"
      "[Push \<lparr>ts = 1, sample_value = 0, time = ''09:00:00'', source = None\<rparr>, Tick, Tick]"]
  by (simp add: init_dashboard_def slice_last_def)

lemma on_signals_flags:
  "running (on_signals now clock infer push nr st) = running st"
  "paused (on_signals now clock infer push nr st) = paused st"
  by (simp_all add: on_signals_def Let_def split: outcome.splits option.splits)

lemma on_signals_rawBuffer:
  "running st \<and> \<not> paused st \<Longrightarrow>
   rawBuffer (on_signals now clock infer push nr st) =
     rawBuffer st @ [\<lparr>ts = now, sample_value = neuro_val nr, time = clock, source = None\<rparr>]"
  by (simp add: on_signals_def Let_def split: outcome.splits option.splits)

lemma on_signals_all_values:
  "running st \<and> \<not> paused st \<Longrightarrow>
   map sample_value (rawBuffer (on_signals_all rs st)) =
     map sample_value (rawBuffer st) @ map (\<lambda>(now, clock, infer, push, nr). neuro_val nr) rs"
proof (induction rs arbitrary: st)
  case Nil
  then show ?case by (simp add: on_signals_all_def)
next
  case (Cons r rs)
  obtain now clock infer push nr where r: "r = (now, clock, infer, push, nr)"
    by (cases r)
  let ?st = "on_signals now clock infer push nr st"
  have "running ?st \<and> \<not> paused ?st"
    using Cons.prems by (simp add: on_signals_flags)
  then have "map sample_value (rawBuffer (on_signals_all rs ?st)) =
     map sample_value (rawBuffer ?st) @ map (\<lambda>(now, clock, infer, push, nr). neuro_val nr) rs"
    by (rule Cons.IH)
  moreover have "on_signals_all (r # rs) st = on_signals_all rs ?st"
    by (simp add: on_signals_all_def r)
  ultimately show ?case
    using Cons.prems by (simp add: on_signals_rawBuffer r)
qed

lemma handleFaceSignal_rawBuffer:
  "rawBuffer (handleFaceSignal now clock push (Some s) st) =
     rawBuffer st @
       [\<lparr>ts = now,
         sample_value = mapAffectToValue (Some (or0 (calm s))) (Some (or0 (focus s))),
         time = clock, source = Some ''camera''\<rparr>]"
  by (cases push) (simp_all add: handleFaceSignal_def Let_def)

text \<open>
  C9, as stated, does not hold: a sample whose inference or whose push to the backend
  throws is enqueued all the same. On a fresh page, a sensor reading whose inference
  throws, one whose push throws, and a camera signal whose push throws each leave their
  sample in the staging queue.
\<close>

theorem failed_sample_is_enqueued:
  "rawBuffer (on_signals 1 ''09:00:00'' Throws (Returns ()) None (init_dashboard True None)) =
     [\<lparr>ts = 1, sample_value = 0, time = ''09:00:00'', source = None\<rparr>] \<and>
   rawBuffer (on_signals 1 ''09:00:00'' (Returns None) Throws None (init_dashboard True None)) =
     [\<lparr>ts = 1, sample_value = 0, time = ''09:00:00'', source = None\<rparr>] \<and>
   rawBuffer (handleFaceSignal 1 ''09:00:00'' Throws
       (Some \<lparr>timestamp = 1, calm = Some 1, anxious = Some 0, focus = Some 0, rawExpressions = []\<rparr>)
       (init_dashboard True None)) =
     [\<lparr>ts = 1, sample_value = 0.9, time = ''09:00:00'', source = Some ''camera''\<rparr>]"
  by (simp add: on_signals_def handleFaceSignal_def init_dashboard_def neuro_val_def Let_def
      mapAffectToValue_def clamp_def or0_def)

text \<open>
  C9, amended. An exception of the inference call or of the push to the backend is
  swallowed for that sample only: the handler ends as if the call had returned nothing.
  The sample is enqueued whatever the two calls do (the enqueue stands outside both
  \<open>try\<close> blocks), for the sensor feed while the page is running and not paused, for
  the camera feed always; and ingestion continues: of a sequence of sensor readings
  every one is enqueued, in order, whichever calls throw. Only a failure of the face
  tracker's own emotion request leaves no sample, since the tracker then emits no
  signal.
\<close>

theorem producer_failures_swallowed:
  "(running st \<and> \<not> paused st \<longrightarrow>
      rawBuffer (on_signals now clock infer push nr st) =
        rawBuffer st @ [\<lparr>ts = now, sample_value = neuro_val nr, time = clock, source = None\<rparr>]) \<and>
   on_signals now clock Throws push nr st = on_signals now clock (Returns None) push nr st \<and>
   on_signals now clock infer Throws nr st = on_signals now clock infer (Returns ()) nr st \<and>
   rawBuffer (handleFaceSignal now clock push (Some s) st) =
     rawBuffer st @
       [\<lparr>ts = now,
         sample_value = mapAffectToValue (Some (or0 (calm s))) (Some (or0 (focus s))),
         time = clock, source = Some ''camera''\<rparr>] \<and>
   handleFaceSignal now clock Throws sg st = handleFaceSignal now clock (Returns ()) sg st \<and>
   (running st \<and> \<not> paused st \<longrightarrow>
      map sample_value (rawBuffer (on_signals_all rs st)) =
        map sample_value (rawBuffer st) @
          map (\<lambda>(now, clock, infer, push, nr). neuro_val nr) rs) \<and>
   emitted (sampleAndSend a now (Failed msg) tr) = emitted tr"
proof -
  have "emitted (sampleAndSend a now (Failed msg) tr) = emitted tr"
    by (simp add: sampleAndSend_def)
  moreover
  have "on_signals now clock Throws push nr st = on_signals now clock (Returns None) push nr st"
    by (simp add: on_signals_def Let_def)
  moreover have
    "on_signals now clock infer Throws nr st = on_signals now clock infer (Returns ()) nr st"
    by (simp add: on_signals_def Let_def)
  moreover have
    "handleFaceSignal now clock Throws sg st = handleFaceSignal now clock (Returns ()) sg st"
    by (cases sg) (simp_all add: handleFaceSignal_def Let_def)
  ultimately show ?thesis
    using on_signals_rawBuffer [of st now clock infer push nr]
      on_signals_all_values [of st rs]
      handleFaceSignal_rawBuffer [of now clock push s st]
    by blast
qed

theorem producer_failures_swallowed_witness:
  "map sample_value (rawBuffer (on_signals_all
      [(1, ''09:00:00'', Throws, Returns (), Some \<lparr>alpha = Some 3, beta = Some 1\<rparr>),
       (2, ''09:00:01'', Returns None, Throws, Some \<lparr>alpha = Some 5, beta = None\<rparr>),
       (3, ''09:00:02'', Throws, Throws, Some \<lparr>alpha = Some 1, beta = Some 2\<rparr>)]
      (init_dashboard True None))) = [2, 0, - 1]"
  using producer_failures_swallowed [of "init_dashboard True None" _ _ _ _ _ _ _
      "[(1, ''09:00:00'', Throws, Returns (), Some \<lparr>alpha = Some 3, beta = Some 1\<rparr>),
       (2, ''09:00:01'', Returns None, Throws, Some \<lparr>alpha = Some 5, beta = None\<rparr>),
       (3, ''09:00:02'', Throws, Throws, Some \<lparr>alpha = Some 1, beta = Some 2\<rparr>)]"]
  by (simp add: init_dashboard_def neuro_val_def)

subsection \<open>Smoothing filter\<close>

lemma set_key_union: "set (key_union prev next) = fst ` set prev \<union> fst ` set next"
  by (auto simp add: key_union_def)

lemma distinct_key_union: "distinct (key_union prev next)"
  by (simp add: key_union_def)

lemma map_fst_ema: "map fst (ema prev next a) = key_union prev next"
  by (simp add: ema_def comp_def)

lemma map_of_ema:
  "map_of (ema prev next a) k =
     (if k \<in> fst ` set prev \<union> fst ` set next
      then Some (a * or0 (map_of prev k) + (1 - a) * or0 (map_of next k)) else None)"
  by (simp add: ema_def map_of_map_restrict restrict_map_def set_key_union)

text \<open>
  C4. The result of \<open>ema\<close> has exactly the keys of the previous vector and of the raw one
  together, each once, and under each key the value
  \<open>alpha * previous + (1 - alpha) * raw\<close>, where a side that lacks the key counts as 0.
  So a key that the raw vector brings for the first time gets \<open>(1 - alpha)\<close> times its
  value, not the value itself: with alpha 0.6 a first happiness of 1 is smoothed to 0.4.
\<close>

theorem ema_key_union:
  "map_of (ema prev next a) k =
     (if k \<in> fst ` set prev \<union> fst ` set next
      then Some (a * or0 (map_of prev k) + (1 - a) * or0 (map_of next k)) else None) \<and>
   set (map fst (ema prev next a)) = fst ` set prev \<union> fst ` set next \<and>
   distinct (map fst (ema prev next a)) \<and>
   (k \<notin> fst ` set prev \<and> map_of next k = Some v \<longrightarrow>
      map_of (ema prev next a) k = Some ((1 - a) * v)) \<and>
   (map_of prev k = Some p \<and> k \<notin> fst ` set next \<longrightarrow>
      map_of (ema prev next a) k = Some (a * p)) \<and>
   ema [] [(''happiness'', 1)] 0.6 = [(''happiness'', 0.4)]"
proof -
  have first: "k \<notin> fst ` set prev \<and> map_of next k = Some v \<longrightarrow>
      map_of (ema prev next a) k = Some ((1 - a) * v)"
  proof
    assume h: "k \<notin> fst ` set prev \<and> map_of next k = Some v"
    then have "map_of prev k = None" by (simp add: map_of_eq_None_iff)
    moreover from h have "k \<in> fst ` set next"
      by (metis map_of_eq_None_iff option.distinct(1))
    ultimately show "map_of (ema prev next a) k = Some ((1 - a) * v)"
      using h by (simp add: map_of_ema or0_simps)
  qed
  have gone: "map_of prev k = Some p \<and> k \<notin> fst ` set next \<longrightarrow>
      map_of (ema prev next a) k = Some (a * p)"
  proof
    assume h: "map_of prev k = Some p \<and> k \<notin> fst ` set next"
    then have "map_of next k = None" by (simp add: map_of_eq_None_iff)
    moreover from h have "k \<in> fst ` set prev"
      by (metis map_of_eq_None_iff option.distinct(1))
    ultimately show "map_of (ema prev next a) k = Some (a * p)"
      using h by (simp add: map_of_ema or0_simps)
  qed
  have ex: "ema [] [(''happiness'', 1)] 0.6 = [(''happiness'', 0.4)]"
    by (simp add: ema_def key_union_def or0_simps)
  show ?thesis
    using first gone ex
    by (simp add: map_of_ema map_fst_ema set_key_union distinct_key_union)
qed

theorem ema_key_union_witness:
  "map_of (ema [(''neutral'', 1)] [(''fear'', 1)] 0.6) ''fear'' = Some 0.4 \<and>
   map_of (ema [(''neutral'', 1)] [(''fear'', 1)] 0.6) ''neutral'' = Some 0.6"
  using ema_key_union [of "[(''neutral'', 1)]" "[(''fear'', 1)]" "0.6" "''fear''" 1 1]
    ema_key_union [of "[(''neutral'', 1)]" "[(''fear'', 1)]" "0.6" "''neutral''" 1 1]
  by (simp add: or0_simps)

lemma sampleAndSend_success:
  assumes "\<not> inFlight st" and "video st" and "er_success d" and "er_emotions d = Some e"
  shows "sampleAndSend a now (Json d) st =
           st\<lparr>inFlight := False, lastUpdated := Some now,
              emitted := emitted st @ [mapToSignals now (next_vector e)],
              smoothed := ema (smoothed st) (next_vector e) a\<rparr>"
  using assms by (simp add: sampleAndSend_def Let_def)

text \<open>
  C5. When the backend answers with a true \<open>success\<close> and an \<open>emotions\<close> object, the
  update passes to the application callback one signal, computed from the raw vector
  (and the clock) alone: it is the same whatever the smoothed vector was. The smoothed
  vector becomes the blend of the old one with the raw one, and the bars show that
  blend.
\<close>

theorem emitted_signal_from_raw:
  assumes "\<not> inFlight st" and "video st" and "er_success d" and "er_emotions d = Some e"
  shows "emitted (sampleAndSend a now (Json d) st) =
           emitted st @ [mapToSignals now (next_vector e)] \<and>
         last (emitted (sampleAndSend a now (Json d) (st\<lparr>smoothed := s1\<rparr>))) =
           last (emitted (sampleAndSend a now (Json d) (st\<lparr>smoothed := s2\<rparr>))) \<and>
         smoothed (sampleAndSend a now (Json d) st) = ema (smoothed st) (next_vector e) a \<and>
         bars (sampleAndSend a now (Json d) st) =
           map (\<lambda>k. pct (map_of (ema (smoothed st) (next_vector e) a) k))
             [''happiness'', ''neutral'', ''sadness'', ''anger'', ''fear'']"
proof -
  have "\<not> inFlight (st\<lparr>smoothed := s1\<rparr>)" "video (st\<lparr>smoothed := s1\<rparr>)"
       "\<not> inFlight (st\<lparr>smoothed := s2\<rparr>)" "video (st\<lparr>smoothed := s2\<rparr>)"
    using assms by simp_all
  then show ?thesis
    using assms by (simp add: sampleAndSend_success bars_def)
qed

theorem emitted_signal_from_raw_witness:
  "last (emitted (sampleAndSend 0.6 5
      (Json \<lparr>er_success = True, er_emotions = Some [(''happiness'', 1)]\<rparr>) init_tracker)) =
   last (emitted (sampleAndSend 0.6 5
      (Json \<lparr>er_success = True, er_emotions = Some [(''happiness'', 1)]\<rparr>)
      (init_tracker\<lparr>smoothed := [(''happiness'', 1)]\<rparr>))) \<and>
   bars (sampleAndSend 0.6 5
      (Json \<lparr>er_success = True, er_emotions = Some [(''happiness'', 1)]\<rparr>) init_tracker)
     = [40, 0, 0, 0, 0] \<and>
   bars (sampleAndSend 0.6 5
      (Json \<lparr>er_success = True, er_emotions = Some [(''happiness'', 1)]\<rparr>)
      (init_tracker\<lparr>smoothed := [(''happiness'', 1)]\<rparr>)) = [100, 0, 0, 0, 0]"
proof -
  let ?d = "\<lparr>er_success = True, er_emotions = Some [(''happiness'', 1)]\<rparr>"
  have i: "\<not> inFlight init_tracker" "video init_tracker"
    by (simp_all add: init_tracker_def)
  have j: "\<not> inFlight (init_tracker\<lparr>smoothed := [(''happiness'', 1)]\<rparr>)"
          "video (init_tracker\<lparr>smoothed := [(''happiness'', 1)]\<rparr>)"
    by (simp_all add: init_tracker_def)
  have d: "er_success ?d" "er_emotions ?d = Some [(''happiness'', 1)]" by simp_all
  note a = emitted_signal_from_raw [OF i d, of "0.6" 5 "smoothed init_tracker" "[(''happiness'', 1)]"]
  note b = emitted_signal_from_raw [OF j d, of "0.6" 5 "[(''happiness'', 1)]" "[(''happiness'', 1)]"]
  have e1: "init_tracker\<lparr>smoothed := smoothed init_tracker\<rparr> = init_tracker" by simp
  have p1: "map (\<lambda>k. pct (map_of (ema (smoothed init_tracker) (next_vector [(''happiness'', 1)]) 0.6) k))
             [''happiness'', ''neutral'', ''sadness'', ''anger'', ''fear''] = [40, 0, 0, 0, 0]"
    by (simp add: init_tracker_def next_vector_def ema_def key_union_def or0_simps pct_def)
  have p2: "map (\<lambda>k. pct (map_of (ema [(''happiness'', 1)] (next_vector [(''happiness'', 1)]) 0.6) k))
             [''happiness'', ''neutral'', ''sadness'', ''anger'', ''fear''] = [100, 0, 0, 0, 0]"
    by (simp add: next_vector_def ema_def key_union_def or0_simps pct_def)
  show ?thesis using a b e1 p1 p2 by simp
qed

lemma unit_valued_lookup:
  assumes "unit_valued e"
  shows "0 \<le> or0 (map_of e k) \<and> or0 (map_of e k) \<le> 1"
proof (cases "map_of e k")
  case None
  then show ?thesis by (simp add: or0_simps)
next
  case (Some v)
  then have "(k, v) \<in> set e" by (rule map_of_SomeD)
  with assms have "0 \<le> v \<and> v \<le> 1"
    by (auto simp add: unit_valued_def list_all_iff)
  with Some show ?thesis by (simp add: or0_simps)
qed

lemma convex_unit:
  fixes a p n :: real
  assumes "0 \<le> a" "a \<le> 1" "0 \<le> p" "p \<le> 1" "0 \<le> n" "n \<le> 1"
  shows "0 \<le> a * p + (1 - a) * n \<and> a * p + (1 - a) * n \<le> 1"
proof -
  have "a * p \<le> a * 1" using assms by (intro mult_left_mono) simp_all
  moreover have "(1 - a) * n \<le> (1 - a) * 1" using assms by (intro mult_left_mono) simp_all
  moreover have "0 \<le> a * p" "0 \<le> (1 - a) * n" using assms by simp_all
  ultimately show ?thesis by simp
qed

lemma unit_valued_iff: "unit_valued e \<longleftrightarrow> (\<forall>(k, v)\<in>set e. 0 \<le> v \<and> v \<le> 1)"
  by (simp add: unit_valued_def list_all_iff)

lemma unit_valued_ema:
  assumes "0 \<le> a" "a \<le> 1" "unit_valued prev" "unit_valued next"
  shows "unit_valued (ema prev next a)"
proof -
  have "0 \<le> a * or0 (map_of prev k) + (1 - a) * or0 (map_of next k) \<and>
        a * or0 (map_of prev k) + (1 - a) * or0 (map_of next k) \<le> 1" for k
    using assms unit_valued_lookup [of prev k] unit_valued_lookup [of "next" k]
    by (intro convex_unit) simp_all
  then show ?thesis
    by (auto simp add: unit_valued_iff ema_def)
qed

lemma unit_valued_next_vector:
  assumes "unit_valued e"
  shows "unit_valued (next_vector e)"
proof -
  have "0 \<le> or0 (map_of e k) \<and> or0 (map_of e k) \<le> 1" for k
    using assms by (rule unit_valued_lookup)
  then show ?thesis
    by (simp add: unit_valued_iff next_vector_def)
qed

lemma sampleAndSend_unit:
  assumes "0 \<le> a" "a \<le> 1" "unit_valued (smoothed st)"
    and "unit_answers [(now, api)]"
  shows "unit_valued (smoothed (sampleAndSend a now api st))"
proof (cases api)
  case (Json d)
  show ?thesis
  proof (cases "er_emotions d")
    case None
    with Json assms show ?thesis by (simp add: sampleAndSend_def)
  next
    case (Some e)
    with Json assms have "unit_valued e" by (simp add: unit_answers_def)
    then have "unit_valued (ema (smoothed st) (next_vector e) a)"
      using assms by (simp add: unit_valued_ema unit_valued_next_vector)
    with Json Some assms show ?thesis by (simp add: sampleAndSend_def Let_def)
  qed
qed (use assms in \<open>simp_all add: sampleAndSend_def\<close>)

lemma sample_all_unit:
  assumes "0 \<le> a" "a \<le> 1"
  shows "unit_valued (smoothed st) \<Longrightarrow> unit_answers rs \<Longrightarrow>
         unit_valued (smoothed (sample_all a rs st))"
proof (induction rs arbitrary: st)
  case Nil
  then show ?case by (simp add: sample_all_def)
next
  case (Cons r rs)
  obtain now api where r: "r = (now, api)" by (cases r)
  from Cons.prems have one: "unit_answers [(now, api)]" and rest: "unit_answers rs"
    by (simp_all add: unit_answers_def r)
  have "unit_valued (smoothed (sampleAndSend a now api st))"
    using assms Cons.prems(1) one by (rule sampleAndSend_unit)
  then have "unit_valued (smoothed (sample_all a rs (sampleAndSend a now api st)))"
    using rest by (rule Cons.IH)
  then show ?case by (simp add: sample_all_def r)
qed

text \<open>
  C6, as stated, does not hold: nothing clamps the smoothed vector. A backend that reports
  a happiness of 5 moves the smoothed happiness from 0 to 2.
\<close>

theorem smoothed_out_of_unit_interval:
  "map_of (smoothed (sampleAndSend 0.6 1
      (Json \<lparr>er_success = True, er_emotions = Some [(''happiness'', 5)]\<rparr>) init_tracker))
     ''happiness'' = Some 2 \<and>
   \<not> unit_valued (smoothed (sampleAndSend 0.6 1
      (Json \<lparr>er_success = True, er_emotions = Some [(''happiness'', 5)]\<rparr>) init_tracker))"
  by (simp add: sampleAndSend_def init_tracker_def next_vector_def ema_def key_union_def
      or0_simps unit_valued_def Let_def)

text \<open>
  C6, amended. If the smoothing factor lies in the unit interval, the smoothed vector
  starts in the unit interval and every \<open>emotions\<close> object the backend sends has its
  components there, then after any sequence of updates every component of the smoothed
  vector lies in the unit interval. The mapping clamps only the calm, anxious and focus
  values of the signal it emits; the filter does not clamp (it leaves a vector of 2s at
  2).
\<close>

theorem smoothed_unit_interval:
  "(0 \<le> a \<and> a \<le> 1 \<and> unit_valued (smoothed st) \<and> unit_answers rs \<longrightarrow>
      unit_valued (smoothed (sample_all a rs st))) \<and>
   (\<exists>c x f. calm (mapToSignals now e) = Some c \<and> anxious (mapToSignals now e) = Some x \<and>
      focus (mapToSignals now e) = Some f \<and>
      0 \<le> c \<and> c \<le> 1 \<and> 0 \<le> x \<and> x \<le> 1 \<and> 0 \<le> f \<and> f \<le> 1) \<and>
   ema [(''fear'', 2)] [(''fear'', 2)] a = [(''fear'', 2)]"
proof -
  have "ema [(''fear'', 2)] [(''fear'', 2)] a = [(''fear'', 2)]"
    by (simp add: ema_def key_union_def or0_simps algebra_simps)
  moreover have "\<exists>c x f. calm (mapToSignals now e) = Some c \<and>
      anxious (mapToSignals now e) = Some x \<and> focus (mapToSignals now e) = Some f \<and>
      0 \<le> c \<and> c \<le> 1 \<and> 0 \<le> x \<and> x \<le> 1 \<and> 0 \<le> f \<and> f \<le> 1"
    by (simp add: mapToSignals_def Let_def)
  ultimately show ?thesis
    using sample_all_unit [of a st rs] by blast
qed

theorem smoothed_unit_interval_witness:
  "unit_valued (smoothed (sample_all 0.6
      [(1, Json \<lparr>er_success = True, er_emotions = Some [(''happiness'', 1)]\<rparr>),
       (2, Failed ''Emotion API returned empty response''),
       (3, Json \<lparr>er_success = True, er_emotions = Some [(''fear'', 0.5)]\<rparr>)] init_tracker))"
  using smoothed_unit_interval [of "0.6" init_tracker
      "[(1, Json \<lparr>er_success = True, er_emotions = Some [(''happiness'', 1)]\<rparr>),
       (2, Failed ''Emotion API returned empty response''),
       (3, Json \<lparr>er_success = True, er_emotions = Some [(''fear'', 0.5)]\<rparr>)]"]
  by (simp add: unit_answers_def init_tracker_def unit_valued_def)

subsection \<open>Sleep timing\<close>

lemma dropWhile_keeps_front:
  assumes "xs \<noteq> []" and "\<not> P (hd xs)"
  shows "dropWhile P (rev (dropWhile P (rev xs))) = rev (dropWhile P (rev xs))"
proof -
  obtain x ys where xs: "xs = x # ys" using assms(1) by (cases xs) auto
  then have nx: "\<not> P x" using assms(2) by simp
  have "dropWhile P (rev ys @ [x]) = dropWhile P (rev ys) @ [x]"
    by (simp add: dropWhile_append nx)
  then have "rev (dropWhile P (rev xs)) = x # rev (dropWhile P (rev ys))"
    by (simp add: xs)
  then show ?thesis using nx by simp
qed

lemma trim_idem: "trim (trim s) = trim s"
proof (cases "dropWhile is_space s = []")
  case True
  then show ?thesis by (simp only: trim_def rev.simps dropWhile.simps)
next
  case False
  let ?t = "dropWhile is_space s"
  have "\<not> is_space (hd ?t)" using False by (rule hd_dropWhile)
  with False have front: "dropWhile is_space (rev (dropWhile is_space (rev ?t))) =
      rev (dropWhile is_space (rev ?t))"
    by (rule dropWhile_keeps_front)
  show ?thesis
    by (simp only: trim_def front rev_rev_ident dropWhile_idem)
qed

text \<open>
  C8. The sleep-timing store round-trips while the storage calls succeed. The values
  \<open>saveSleepTiming\<close> receives are the trimmed answer of the prompt, when that is not
  empty, and the empty string. With a trimmed non-empty value it stores the trimmed
  string and sets the in-memory cell to it, so that reading the store back, as a fresh
  mount does, gives that string; "23:00-07:00" comes back as "23:00-07:00". With the
  empty value it deletes the key and clears the cell, and reading back gives the empty
  string. \<open>onSetSleepTiming\<close> with an answer that is not blank and a confirmed
  \<open>onClearSleepTiming\<close> are these two calls.
\<close>

theorem sleep_timing_round_trip:
  "(v = trim inp \<and> v \<noteq> [] \<longrightarrow>
      trim v = v \<and>
      storage (saveSleepTiming True v st) = Some (trim v) \<and>
      sleepTiming (saveSleepTiming True v st) = trim v \<and>
      load_sleepTiming True (storage (saveSleepTiming True v st)) = trim v) \<and>
   storage (saveSleepTiming True [] st) = None \<and>
   sleepTiming (saveSleepTiming True [] st) = [] \<and>
   load_sleepTiming True (storage (saveSleepTiming True [] st)) = [] \<and>
   (trim inp \<noteq> [] \<longrightarrow>
      onSetSleepTiming True (Some inp) st = saveSleepTiming True (trim inp) st \<and>
      storage (onSetSleepTiming True (Some inp) st) = Some (trim inp) \<and>
      sleepTiming (onSetSleepTiming True (Some inp) st) = trim inp \<and>
      load_sleepTiming True (storage (onSetSleepTiming True (Some inp) st)) = trim inp) \<and>
   (sleepTiming st \<noteq> [] \<longrightarrow>
      onClearSleepTiming True True st = saveSleepTiming True [] st) \<and>
   trim ''23:00-07:00'' = ''23:00-07:00'' \<and>
   sleepTiming (saveSleepTiming True ''23:00-07:00'' st) = ''23:00-07:00'' \<and>
   load_sleepTiming True (storage (saveSleepTiming True ''23:00-07:00'' st)) = ''23:00-07:00''"
proof -
  have reach: "v = trim inp \<and> v \<noteq> [] \<longrightarrow>
      trim v = v \<and>
      storage (saveSleepTiming True v st) = Some (trim v) \<and>
      sleepTiming (saveSleepTiming True v st) = trim v \<and>
      load_sleepTiming True (storage (saveSleepTiming True v st)) = trim v"
  proof
    assume h: "v = trim inp \<and> v \<noteq> []"
    then have t: "trim v = v" by (simp add: trim_idem)
    from h have "storage (saveSleepTiming True v st) = Some v"
      "sleepTiming (saveSleepTiming True v st) = v"
      "load_sleepTiming True (storage (saveSleepTiming True v st)) = v"
      by (auto simp add: saveSleepTiming_def load_sleepTiming_def)
    with t show "trim v = v \<and>
      storage (saveSleepTiming True v st) = Some (trim v) \<and>
      sleepTiming (saveSleepTiming True v st) = trim v \<and>
      load_sleepTiming True (storage (saveSleepTiming True v st)) = trim v"
      by simp
  qed
  have ex: "trim ''23:00-07:00'' = ''23:00-07:00''"
    by (simp add: trim_def is_space_def)
  have rest: "storage (saveSleepTiming True [] st) = None \<and>
   sleepTiming (saveSleepTiming True [] st) = [] \<and>
   load_sleepTiming True (storage (saveSleepTiming True [] st)) = [] \<and>
   (trim inp \<noteq> [] \<longrightarrow>
      onSetSleepTiming True (Some inp) st = saveSleepTiming True (trim inp) st \<and>
      storage (onSetSleepTiming True (Some inp) st) = Some (trim inp) \<and>
      sleepTiming (onSetSleepTiming True (Some inp) st) = trim inp \<and>
      load_sleepTiming True (storage (onSetSleepTiming True (Some inp) st)) = trim inp) \<and>
   (sleepTiming st \<noteq> [] \<longrightarrow>
      onClearSleepTiming True True st = saveSleepTiming True [] st) \<and>
   sleepTiming (saveSleepTiming True ''23:00-07:00'' st) = ''23:00-07:00'' \<and>
   load_sleepTiming True (storage (saveSleepTiming True ''23:00-07:00'' st)) = ''23:00-07:00''"
    by (simp add: saveSleepTiming_def onSetSleepTiming_def onClearSleepTiming_def
        load_sleepTiming_def Let_def)
  from reach ex rest show ?thesis by blast
qed

theorem sleep_timing_round_trip_witness:
  "storage (saveSleepTiming True ''23:30-06:30'' (init_dashboard True None)) =
     Some ''23:30-06:30'' \<and>
   sleepTiming (onSetSleepTiming True (Some '' 23:30-06:30 '') (init_dashboard True None)) =
     ''23:30-06:30'' \<and>
   storage (onClearSleepTiming True True
     (saveSleepTiming True ''23:30-06:30'' (init_dashboard True None))) = None"
  using sleep_timing_round_trip [of "''23:30-06:30''" "'' 23:30-06:30 ''" "init_dashboard True None"]
    sleep_timing_round_trip [of "''23:30-06:30''" "'' 23:30-06:30 ''"
      "saveSleepTiming True ''23:30-06:30'' (init_dashboard True None)"]
  by (simp add: trim_def is_space_def saveSleepTiming_def)

subsection \<open>Chat bot\<close>

lemma say_fields:
  "messages (say r t st) = messages st @ [\<lparr>role = r, msg_text = t\<rparr>]"
  "requests (say r t st) = requests st"
  by (simp_all add: say_def)

lemma post_fields:
  "messages (post rq st) = messages st"
  "requests (post rq st) = requests st @ [rq]"
  by (simp_all add: post_def)

text \<open>
  C7. In the voice flow, when the transcription request comes back empty or with a false
  \<open>success\<close>, exactly one message is appended, of role assistant, with the error of the
  response when it has one and "Could not transcribe audio." otherwise, and the only
  request issued is the transcription request: the reply request is not made. When the
  response succeeds with an empty or missing transcript, the one message appended is
  the assistant's "No speech recognized.", and again no reply request is made.
\<close>

theorem transcription_failure_aborts:
  "(server (AudioPost b (slice_last 10 seen)) = Null \<or>
    (\<exists>r. server (AudioPost b (slice_last 10 seen)) = Json r \<and> \<not> vr_success r) \<longrightarrow>
      messages (handleAudioFlow server seen autoplay b st) =
        messages st @
          [\<lparr>role = ''assistant'',
            msg_text =
              (case server (AudioPost b (slice_last 10 seen)) of
                 Json r \<Rightarrow> or_else (vr_error r) ''Could not transcribe audio.''
               | _ \<Rightarrow> ''Could not transcribe audio.'')\<rparr>] \<and>
      requests (handleAudioFlow server seen autoplay b st) =
        requests st @ [AudioPost b (slice_last 10 seen)]) \<and>
   ((\<exists>r. server (AudioPost b (slice_last 10 seen)) = Json r \<and> vr_success r \<and>
          or_else (vr_transcript r) [] = []) \<longrightarrow>
      messages (handleAudioFlow server seen autoplay b st) =
        messages st @ [\<lparr>role = ''assistant'', msg_text = ''No speech recognized.''\<rparr>] \<and>
      requests (handleAudioFlow server seen autoplay b st) =
        requests st @ [AudioPost b (slice_last 10 seen)])"
  by (auto simp add: handleAudioFlow_def Let_def say_fields post_fields)

theorem transcription_failure_aborts_witness:
  "messages (handleAudioFlow
      (\<lambda>rq. Json \<lparr>vr_success = False, vr_error = Some ''quota exceeded'', vr_transcript = None,
                  vr_replyText = None, vr_audioBase64 = None\<rparr>)
      [] True [1, 2, 3]
      \<lparr>messages = [], recording = False, loading = False, permissionError = [],
       voiceEnabled = True, input = [], requests = [], played = []\<rparr>) =
     [\<lparr>role = ''assistant'', msg_text = ''quota exceeded''\<rparr>] \<and>
   requests (handleAudioFlow
      (\<lambda>rq. Json \<lparr>vr_success = False, vr_error = Some ''quota exceeded'', vr_transcript = None,
                  vr_replyText = None, vr_audioBase64 = None\<rparr>)
      [] True [1, 2, 3]
      \<lparr>messages = [], recording = False, loading = False, permissionError = [],
       voiceEnabled = True, input = [], requests = [], played = []\<rparr>) =
     [AudioPost [1, 2, 3] []] \<and>
   messages (handleAudioFlow
      (\<lambda>rq. Json \<lparr>vr_success = True, vr_error = None, vr_transcript = Some [],
                  vr_replyText = None, vr_audioBase64 = None\<rparr>)
      [] True [1, 2, 3]
      \<lparr>messages = [], recording = False, loading = False, permissionError = [],
       voiceEnabled = True, input = [], requests = [], played = []\<rparr>) =
     [\<lparr>role = ''assistant'', msg_text = ''No speech recognized.''\<rparr>]"
  using transcription_failure_aborts [of
      "\<lambda>rq. Json \<lparr>vr_success = False, vr_error = Some ''quota exceeded'', vr_transcript = None,
                  vr_replyText = None, vr_audioBase64 = None\<rparr>"
      "[1, 2, 3]" "[]"  True
      "\<lparr>messages = [], recording = False, loading = False, permissionError = [],
       voiceEnabled = True, input = [], requests = [], played = []\<rparr>"]
    transcription_failure_aborts [of
      "\<lambda>rq. Json \<lparr>vr_success = True, vr_error = None, vr_transcript = Some [],
                  vr_replyText = None, vr_audioBase64 = None\<rparr>"
      "[1, 2, 3]" "[]"  True
      "\<lparr>messages = [], recording = False, loading = False, permissionError = [],
       voiceEnabled = True, input = [], requests = [], played = []\<rparr>"]
  by (simp add: slice_last_def or_else_def)

lemma trim_blank:
  assumes "\<forall>c\<in>set t. is_space c"
  shows "trim t = []"
proof -
  from assms have blank: "dropWhile is_space t = []"
    by (induction t) simp_all
  show ?thesis
    by (simp only: trim_def blank rev.simps dropWhile.simps)
qed

text \<open>
  C10. \<open>sendText\<close> called with \<open>null\<close> or \<open>undefined\<close>, with the empty string or with a
  string of white space only leaves the whole state of the component as it was: no
  message is appended, no request is issued, no cell changes.
\<close>

theorem sendText_blank_noop:
  "txt = None \<or> (\<exists>t. txt = Some t \<and> (\<forall>c\<in>set t. is_space c)) \<Longrightarrow>
   sendText server seen autoplay txt st = st"
  by (auto simp add: sendText_def trim_blank)

theorem sendText_blank_noop_witness:
  "sendText (\<lambda>rq. Null) [] True (Some [CHR 0x20, CHR 0x09, CHR 0x0A])
     \<lparr>messages = [], recording = False, loading = False, permissionError = [],
      voiceEnabled = True, input = '' '', requests = [], played = []\<rparr> =
     \<lparr>messages = [], recording = False, loading = False, permissionError = [],
      voiceEnabled = True, input = '' '', requests = [], played = []\<rparr> \<and>
   sendText (\<lambda>rq. Null) [] True (Some [])
     \<lparr>messages = [], recording = False, loading = False, permissionError = [],
      voiceEnabled = True, input = [], requests = [], played = []\<rparr> =
     \<lparr>messages = [], recording = False, loading = False, permissionError = [],
      voiceEnabled = True, input = [], requests = [], played = []\<rparr> \<and>
   sendText (\<lambda>rq. Null) [] True None
     \<lparr>messages = [], recording = False, loading = False, permissionError = [],
      voiceEnabled = True, input = [], requests = [], played = []\<rparr> =
     \<lparr>messages = [], recording = False, loading = False, permissionError = [],
      voiceEnabled = True, input = [], requests = [], played = []\<rparr>"
  using sendText_blank_noop [of "Some [CHR 0x20, CHR 0x09, CHR 0x0A]" "\<lambda>rq. Null" "[]" True
     "\<lparr>messages = [], recording = False, loading = False, permissionError = [],
      voiceEnabled = True, input = '' '', requests = [], played = []\<rparr>"]
    sendText_blank_noop [of "Some []" "\<lambda>rq. Null" "[]" True
     "\<lparr>messages = [], recording = False, loading = False, permissionError = [],
      voiceEnabled = True, input = [], requests = [], played = []\<rparr>"]
    sendText_blank_noop [of None "\<lambda>rq. Null" "[]" True
     "\<lparr>messages = [], recording = False, loading = False, permissionError = [],
      voiceEnabled = True, input = [], requests = [], played = []\<rparr>"]
  by (simp add: is_space_def)

lemma sendText_nonblank_example:
  "messages (sendText (\<lambda>rq. Null) [] True (Some '' hi '')
     \<lparr>messages = [], recording = False, loading = False, permissionError = [],
      voiceEnabled = True, input = '' hi '', requests = [], played = []\<rparr>) =
   [\<lparr>role = ''user'', msg_text = ''hi''\<rparr>, \<lparr>role = ''assistant'', msg_text = ''Assistant error.''\<rparr>]"
  by (simp add: sendText_def trim_def is_space_def Let_def say_def post_def)

end
